theory Spec2Isabelle
  imports Main
begin

section \<open>Go strings and slices\<close>

text \<open>
  A Go string is a sequence of bytes and is modelled as \<open>string\<close>. A panic of the Go
  runtime is a value of type \<open>error\<close>; a function that can panic returns \<open>error + 'a\<close>.
\<close>

datatype error = IndexOutOfRange | NilPointerDereference

text \<open>
  \<open>strings.Split(s, sep)\<close> for a separator of one byte: the pieces between the
  separators, always at least one piece. The accumulator holds the piece being read.
\<close>

fun split_acc :: "char \<Rightarrow> string \<Rightarrow> string \<Rightarrow> string list" where
  "split_acc c cur [] = [cur]"
| "split_acc c cur (x # xs) =
     (if x = c then cur # split_acc c [] xs else split_acc c (cur @ [x]) xs)"

definition split_on :: "char \<Rightarrow> string \<Rightarrow> string list" where
  "split_on c s = split_acc c [] s"

text \<open>
  \<open>strings.Fields(s)\<close>: the maximal runs of non-space bytes. The space bytes are the
  six of Go's ASCII table (tab, newline, vertical tab, form feed, carriage return, blank).
  Go also splits at the Unicode spaces beyond ASCII (U+0085, U+00A0, ...); texts holding
  those are outside this model.
\<close>

definition isSpace :: "char \<Rightarrow> bool" where
  "isSpace c = (c = CHR 0x09 \<or> c = CHR 0x0A \<or> c = CHR 0x0B \<or> c = CHR 0x0C
                \<or> c = CHR 0x0D \<or> c = CHR 0x20)"

fun fields_acc :: "string \<Rightarrow> string \<Rightarrow> string list" where
  "fields_acc cur [] = (if cur = [] then [] else [cur])"
| "fields_acc cur (x # xs) =
     (if isSpace x then (if cur = [] then fields_acc [] xs else cur # fields_acc [] xs)
      else fields_acc (cur @ [x]) xs)"

definition Fields :: "string \<Rightarrow> string list" where
  "Fields s = fields_acc [] s"

text \<open>\<open>strings.HasPrefix\<close>.\<close>

definition hasPrefix :: "string \<Rightarrow> string \<Rightarrow> bool" where
  "hasPrefix s p = (take (length p) s = p)"

text \<open>
  \<open>s[strings.Index(s, "=")+1:]\<close> for a one-byte pattern: \<open>Index\<close> is \<open>-1\<close> when the
  byte does not occur, and the slice is then the whole string.
\<close>

fun after_first :: "char \<Rightarrow> string \<Rightarrow> string option" where
  "after_first c [] = None"
| "after_first c (x # xs) = (if x = c then Some xs else after_first c xs)"

definition sliceAfterIndex :: "char \<Rightarrow> string \<Rightarrow> string" where
  "sliceAfterIndex c s = (case after_first c s of None \<Rightarrow> s | Some r \<Rightarrow> r)"

section \<open>The certificate registry (index.txt)\<close>

record indexTxtLine =
  Flag :: string
  ExpirationDate :: string
  RevocationDate :: string
  SerialNumber :: string
  Filename :: string
  DistinguishedName :: string
  Identity :: string

text \<open>
  One iteration of the loop of \<open>indexTxtParser\<close> on the tokens of a line: the record the
  line appends, if any. Reading \<open>str[1]\<close> .. \<open>str[5]\<close> beyond the tokens of the line
  panics in Go.
\<close>

definition indexTxtParseLine :: "string list \<Rightarrow> error + indexTxtLine option" where
  "indexTxtParseLine str =
     (if length str > 0 then
        (if hasPrefix (str ! 0) ''V'' then
           (if 4 < length str then
              Inr (Some \<lparr>Flag = str ! 0, ExpirationDate = str ! 1, RevocationDate = [],
                         SerialNumber = str ! 2, Filename = str ! 3,
                         DistinguishedName = str ! 4,
                         Identity = sliceAfterIndex CHR ''='' (str ! 4)\<rparr>)
            else Inl IndexOutOfRange)
         else if hasPrefix (str ! 0) ''R'' then
           (if 5 < length str then
              Inr (Some \<lparr>Flag = str ! 0, ExpirationDate = str ! 1, RevocationDate = str ! 2,
                         SerialNumber = str ! 3, Filename = str ! 4,
                         DistinguishedName = str ! 5,
                         Identity = sliceAfterIndex CHR ''='' (str ! 5)\<rparr>)
            else Inl IndexOutOfRange)
         else Inr None)
      else Inr None)"

fun indexTxtLoop :: "string list \<Rightarrow> indexTxtLine list \<Rightarrow> error + indexTxtLine list" where
  "indexTxtLoop [] indexTxt = Inr indexTxt"
| "indexTxtLoop (v # vs) indexTxt =
     (case indexTxtParseLine (Fields v) of
        Inl e \<Rightarrow> Inl e
      | Inr None \<Rightarrow> indexTxtLoop vs indexTxt
      | Inr (Some l) \<Rightarrow> indexTxtLoop vs (indexTxt @ [l]))"

definition indexTxtParser :: "string \<Rightarrow> error + indexTxtLine list" where
  "indexTxtParser txt = indexTxtLoop (split_on CHR 0x0A txt) []"

text \<open>\<open>renderIndexTxt\<close>: one line per record of flag \<open>V\<close> or \<open>R\<close>, other records dropped.\<close>

definition tab :: string where
  "tab = [CHR 0x09]"

definition nl :: string where
  "nl = [CHR 0x0A]"




section \<open>Live sessions\<close>

record clientStatus =
  CommonName :: string
  RealAddress :: string
  BytesReceived :: string
  BytesSent :: string
  ConnectedSince :: string
  VirtualAddress :: string
  LastRef :: string
  ConnectedSinceFormatted :: string
  LastRefFormatted :: string

text \<open>The zero value \<open>clientStatus{}\<close>: every field is the empty string.\<close>

definition clientStatusZero :: clientStatus where
  "clientStatusZero =
     \<lparr>CommonName = [], RealAddress = [], BytesReceived = [], BytesSent = [],
      ConnectedSince = [], VirtualAddress = [], LastRef = [],
      ConnectedSinceFormatted = [], LastRefFormatted = []\<rparr>"

fun getUserStatistic :: "clientStatus list \<Rightarrow> string \<Rightarrow> clientStatus" where
  "getUserStatistic [] username = clientStatusZero"
| "getUserStatistic (u # us) username =
     (if CommonName u = username then u else getUserStatistic us username)"

fun isUserConnected :: "string \<Rightarrow> clientStatus list \<Rightarrow> bool" where
  "isUserConnected username [] = False"
| "isUserConnected username (connectedUser # rest) =
     (if CommonName connectedUser = username then True else isUserConnected username rest)"

section \<open>The metrics sink\<close>

text \<open>
  The Prometheus gauges are a sink: the model records each write, in order. The value of
  a write is the \<open>int64\<close> (or \<open>int\<close>) the code converts with \<open>float64\<close>. The writes go
  through \<open>WithLabelValues\<close>, which is taken to accept every label.
\<close>

datatype gauge_write =
    OvpnServerCertExpire int
  | OvpnClientCertificateExpire string int
  | OvpnClientsTotal int
  | OvpnClientsRevoked int
  | OvpnClientsExpired int
  | OvpnClientsConnected int
  | OvpnClientConnectionFrom string string int
  | OvpnClientBytesSent string int
  | OvpnClientBytesReceived string int
  | OvpnClientConnectionInfo string string int

text \<open>Go's integer division truncates toward zero.\<close>

definition go_div :: "int \<Rightarrow> int \<Rightarrow> int" where
  "go_div a b = sgn a * sgn b * (\<bar>a\<bar> div \<bar>b\<bar>)"

definition indexTxtDateLayout :: string where
  "indexTxtDateLayout = ''060102150405Z''"

definition stringDateFormat :: string where
  "stringDateFormat = ''2006-01-02 15:04:05''"

definition ovpnStatusDateLayout :: string where
  "ovpnStatusDateLayout = ''Mon Jan 2 15:04:05 2006''"

text \<open>
  \<open>(parseDateToUnix(indexTxtDateLayout, d) - apochNow) / 3600 / 24\<close>. The helper
  \<open>parseDateToUnix\<close> is not part of \<open>main.go\<close> and is a parameter; the difference of two
  Unix times is taken to stay inside \<open>int64\<close>.
\<close>

definition expireDays :: "(string \<Rightarrow> string \<Rightarrow> int) \<Rightarrow> int \<Rightarrow> string \<Rightarrow> int" where
  "expireDays parseDateToUnix apochNow d =
     go_div (go_div (parseDateToUnix indexTxtDateLayout d - apochNow) 3600) 24"

section \<open>Reconciliation: usersList\<close>

record OpenvpnClient =
  ocIdentity :: string
  AccountStatus :: string
  ocExpirationDate :: string
  ocRevocationDate :: string
  ConnectionStatus :: string

record usersListState =
  users :: "OpenvpnClient list"
  totalCerts :: int
  validCerts :: int
  revokedCerts :: int
  expiredCerts :: int
  connectedUsers :: int
  gauges :: "gauge_write list"

text \<open>
  The \<open>switch\<close> on the flag of a record other than the server's: the account status,
  the revocation date, the gauge and the counter of the flag. A flag other than \<open>V\<close>,
  \<open>R\<close>, \<open>E\<close> changes nothing.
\<close>

definition usersListSwitch ::
  "(string \<Rightarrow> string \<Rightarrow> string \<Rightarrow> string) \<Rightarrow> (string \<Rightarrow> string \<Rightarrow> int) \<Rightarrow> int
     \<Rightarrow> indexTxtLine \<Rightarrow> OpenvpnClient \<times> usersListState \<Rightarrow> OpenvpnClient \<times> usersListState" where
  "usersListSwitch parseDateToString parseDateToUnix apochNow line cs =
     (let ovpnClient = fst cs; st = snd cs;
          w = OvpnClientCertificateExpire (Identity line)
                (expireDays parseDateToUnix apochNow (ExpirationDate line))
      in if Flag line = ''V'' then
           (ovpnClient\<lparr>AccountStatus := ''Active''\<rparr>,
            st\<lparr>gauges := gauges st @ [w], validCerts := validCerts st + 1\<rparr>)
         else if Flag line = ''R'' then
           (ovpnClient\<lparr>AccountStatus := ''Revoked'',
                       ocRevocationDate :=
                         parseDateToString indexTxtDateLayout (RevocationDate line) stringDateFormat\<rparr>,
            st\<lparr>gauges := gauges st @ [w], revokedCerts := revokedCerts st + 1\<rparr>)
         else if Flag line = ''E'' then
           (ovpnClient\<lparr>AccountStatus := ''Expired''\<rparr>,
            st\<lparr>gauges := gauges st @ [w], expiredCerts := expiredCerts st + 1\<rparr>)
         else (ovpnClient, st))"

text \<open>One iteration of the loop of \<open>usersList\<close>.\<close>

definition usersListStep ::
  "(string \<Rightarrow> string \<Rightarrow> string \<Rightarrow> string) \<Rightarrow> (string \<Rightarrow> string \<Rightarrow> int) \<Rightarrow> int
     \<Rightarrow> clientStatus list \<Rightarrow> indexTxtLine \<Rightarrow> usersListState \<Rightarrow> usersListState" where
  "usersListStep parseDateToString parseDateToUnix apochNow activeClients line st =
     (if Identity line \<noteq> ''server'' then
        (let st1 = st\<lparr>totalCerts := totalCerts st + 1\<rparr>;
             ovpnClient0 = \<lparr>ocIdentity = Identity line, AccountStatus = [],
                            ocExpirationDate =
                              parseDateToString indexTxtDateLayout (ExpirationDate line) stringDateFormat,
                            ocRevocationDate = [], ConnectionStatus = []\<rparr>;
             cs = usersListSwitch parseDateToString parseDateToUnix apochNow line (ovpnClient0, st1);
             cs2 = (if isUserConnected (Identity line) activeClients
                    then ((fst cs)\<lparr>ConnectionStatus := ''Connected''\<rparr>,
                          (snd cs)\<lparr>connectedUsers := connectedUsers (snd cs) + 1\<rparr>)
                    else cs)
         in (snd cs2)\<lparr>users := users (snd cs2) @ [fst cs2]\<rparr>)
      else st\<lparr>gauges := gauges st
                  @ [OvpnServerCertExpire (expireDays parseDateToUnix apochNow (ExpirationDate line))]\<rparr>)"

fun usersListLoop ::
  "(string \<Rightarrow> string \<Rightarrow> string \<Rightarrow> string) \<Rightarrow> (string \<Rightarrow> string \<Rightarrow> int) \<Rightarrow> int
     \<Rightarrow> clientStatus list \<Rightarrow> indexTxtLine list \<Rightarrow> usersListState \<Rightarrow> usersListState" where
  "usersListLoop pds pdu apochNow activeClients [] st = st"
| "usersListLoop pds pdu apochNow activeClients (line # ls) st =
     usersListLoop pds pdu apochNow activeClients ls
       (usersListStep pds pdu apochNow activeClients line st)"

definition usersListInit :: usersListState where
  "usersListInit = \<lparr>users = [], totalCerts = 0, validCerts = 0, revokedCerts = 0,
                     expiredCerts = 0, connectedUsers = 0, gauges = []\<rparr>"

text \<open>
  \<open>usersList\<close>: the list it returns and the gauge writes it makes. The helpers \<open>fRead\<close>,
  \<open>parseDateToString\<close> and \<open>parseDateToUnix\<close> are not part of \<open>main.go\<close> and are
  parameters, as are the clock reading \<open>apochNow\<close> and the field \<open>activeClients\<close> of the
  receiver. The warning logged for other certificates is not modelled.
\<close>

definition usersList ::
  "(string \<Rightarrow> string) \<Rightarrow> (string \<Rightarrow> string \<Rightarrow> string \<Rightarrow> string) \<Rightarrow> (string \<Rightarrow> string \<Rightarrow> int)
     \<Rightarrow> string \<Rightarrow> int \<Rightarrow> clientStatus list \<Rightarrow> error + (OpenvpnClient list \<times> gauge_write list)" where
  "usersList fRead parseDateToString parseDateToUnix indexTxtPath apochNow activeClients =
     (case indexTxtParser (fRead indexTxtPath) of
        Inl e \<Rightarrow> Inl e
      | Inr ls \<Rightarrow>
          (let st = usersListLoop parseDateToString parseDateToUnix apochNow activeClients ls
                      usersListInit
           in Inr (users st,
                   gauges st @ [OvpnClientsTotal (totalCerts st),
                                OvpnClientsRevoked (revokedCerts st),
                                OvpnClientsExpired (expiredCerts st),
                                OvpnClientsConnected (connectedUsers st)])))"

text \<open>
  The reconciliation as the specification words it: the view of one record, and the gauge
  writes one record causes. The theorem on \<open>usersList\<close> compares the loop with these.
\<close>

definition clientView ::
  "(string \<Rightarrow> string \<Rightarrow> string \<Rightarrow> string) \<Rightarrow> clientStatus list \<Rightarrow> indexTxtLine \<Rightarrow> OpenvpnClient" where
  "clientView parseDateToString activeClients line =
     \<lparr>ocIdentity = Identity line,
      AccountStatus = (if Flag line = ''V'' then ''Active''
                       else if Flag line = ''R'' then ''Revoked''
                       else if Flag line = ''E'' then ''Expired'' else []),
      ocExpirationDate = parseDateToString indexTxtDateLayout (ExpirationDate line) stringDateFormat,
      ocRevocationDate = (if Flag line = ''R''
                          then parseDateToString indexTxtDateLayout (RevocationDate line) stringDateFormat
                          else []),
      ConnectionStatus = (if (\<exists>s\<in>set activeClients. CommonName s = Identity line)
                          then ''Connected'' else [])\<rparr>"

definition lineGauges :: "(string \<Rightarrow> string \<Rightarrow> int) \<Rightarrow> int \<Rightarrow> indexTxtLine \<Rightarrow> gauge_write list" where
  "lineGauges parseDateToUnix apochNow line =
     (if Identity line = ''server''
      then [OvpnServerCertExpire (expireDays parseDateToUnix apochNow (ExpirationDate line))]
      else if Flag line = ''V'' \<or> Flag line = ''R'' \<or> Flag line = ''E''
      then [OvpnClientCertificateExpire (Identity line)
              (expireDays parseDateToUnix apochNow (ExpirationDate line))]
      else [])"

definition isClient :: "indexTxtLine \<Rightarrow> bool" where
  "isClient line = (Identity line \<noteq> ''server'')"

section \<open>Well-formed registry texts\<close>






section \<open>The control socket's status report\<close>

text \<open>
  \<open>bufio.Scanner\<close> with its default split function \<open>ScanLines\<close>: the pieces between
  newlines, each without one trailing carriage return; the piece after the last newline is
  a line only when it is not empty. A line of \<open>bufio.MaxScanTokenSize\<close> bytes or more makes
  \<open>Scan\<close> return false, which ends the loop there.
\<close>

definition maxScanTokenSize :: nat where
  "maxScanTokenSize = 65536"

definition dropCR :: "string \<Rightarrow> string" where
  "dropCR s = (if s \<noteq> [] \<and> last s = CHR 0x0D then butlast s else s)"

fun scan_acc :: "string \<Rightarrow> string \<Rightarrow> string list" where
  "scan_acc cur [] =
     (if cur = [] then [] else if length cur < maxScanTokenSize then [dropCR cur] else [])"
| "scan_acc cur (x # xs) =
     (if x = CHR 0x0A
      then (if length cur < maxScanTokenSize then dropCR cur # scan_acc [] xs else [])
      else scan_acc (cur @ [x]) xs)"

definition scanLines :: "string \<Rightarrow> string list" where
  "scanLines text = scan_acc [] text"

definition clientListHeader :: string where
  "clientListHeader = ''Common Name,Real Address,Bytes Received,Bytes Sent,Connected Since''"

definition routingTableLine :: string where
  "routingTableLine = ''ROUTING TABLE''"

definition routeTableHeader :: string where
  "routeTableHeader = ''Virtual Address,Common Name,Real Address,Last Ref''"

definition globalStatsLine :: string where
  "globalStatsLine = ''GLOBAL STATS''"

record parserState =
  uAcc :: "clientStatus list"
  isClientList :: bool
  isRouteTable :: bool
  writes :: "gauge_write list"

text \<open>
  The body of \<open>if isClientList\<close>: the line split at commas gives the five fields of a
  session, which is appended; three gauges are written. \<open>strconv.Atoi\<close> and the helper
  \<open>parseDateToUnix\<close> are parameters.
\<close>

definition clientListRow ::
  "(string \<Rightarrow> string \<Rightarrow> int) \<Rightarrow> (string \<Rightarrow> int) \<Rightarrow> string \<Rightarrow> parserState \<Rightarrow> error + parserState" where
  "clientListRow parseDateToUnix atoi line st =
     (let user = split_on CHR '','' line in
      if 4 < length user then
        (let userName = user ! 0; userAddress = user ! 1; userBytesRecieved = user ! 2;
             userBytesSent = user ! 3; userConnectedSince = user ! 4;
             userStatus = \<lparr>CommonName = userName, RealAddress = userAddress,
                           BytesReceived = userBytesRecieved, BytesSent = userBytesSent,
                           ConnectedSince = userConnectedSince, VirtualAddress = [],
                           LastRef = [], ConnectedSinceFormatted = [], LastRefFormatted = []\<rparr>
         in Inr (st\<lparr>uAcc := uAcc st @ [userStatus],
                     writes := writes st
                       @ [OvpnClientConnectionFrom userName userAddress
                            (parseDateToUnix ovpnStatusDateLayout userConnectedSince),
                          OvpnClientBytesSent userName (atoi userBytesSent),
                          OvpnClientBytesReceived userName (atoi userBytesRecieved)]\<rparr>))
      else Inl IndexOutOfRange)"

text \<open>
  The loop \<open>for i := range u\<close> of a routing row: the first session whose common name is
  \<open>user[1]\<close> gets \<open>user[0]\<close> and \<open>user[3]\<close>, one gauge is written, and the loop breaks.
  \<open>user[1]\<close> is read only when there is a session to compare with.
\<close>

fun fillRoute ::
  "(string \<Rightarrow> string \<Rightarrow> int) \<Rightarrow> string list \<Rightarrow> clientStatus list
     \<Rightarrow> error + (clientStatus list \<times> gauge_write list)" where
  "fillRoute parseDateToUnix user [] = Inr ([], [])"
| "fillRoute parseDateToUnix user (c # cs) =
     (if 1 < length user then
        (if CommonName c = user ! 1 then
           (if 3 < length user then
              Inr (c\<lparr>VirtualAddress := user ! 0, LastRef := user ! 3\<rparr> # cs,
                   [OvpnClientConnectionInfo (user ! 1) (user ! 0)
                      (parseDateToUnix ovpnStatusDateLayout (user ! 3))])
            else Inl IndexOutOfRange)
         else (case fillRoute parseDateToUnix user cs of
                 Inl e \<Rightarrow> Inl e
               | Inr (cs', ws) \<Rightarrow> Inr (c # cs', ws)))
      else Inl IndexOutOfRange)"

definition routeTableRow ::
  "(string \<Rightarrow> string \<Rightarrow> int) \<Rightarrow> string \<Rightarrow> parserState \<Rightarrow> error + parserState" where
  "routeTableRow parseDateToUnix line st =
     (case fillRoute parseDateToUnix (split_on CHR '','' line) (uAcc st) of
        Inl e \<Rightarrow> Inl e
      | Inr (cs', ws) \<Rightarrow> Inr (st\<lparr>uAcc := cs', writes := writes st @ ws\<rparr>))"

text \<open>
  The loop over the lines. The four patterns are anchored at both ends and hold no
  operator, so a line matches one when it is equal to it. \<open>GLOBAL STATS\<close> breaks the loop.
\<close>

fun mgmtLoop ::
  "(string \<Rightarrow> string \<Rightarrow> int) \<Rightarrow> (string \<Rightarrow> int) \<Rightarrow> string list \<Rightarrow> parserState \<Rightarrow> error + parserState" where
  "mgmtLoop parseDateToUnix atoi [] st = Inr st"
| "mgmtLoop parseDateToUnix atoi (line # rest) st =
     (if line = clientListHeader then mgmtLoop parseDateToUnix atoi rest (st\<lparr>isClientList := True\<rparr>)
      else if line = routingTableLine then mgmtLoop parseDateToUnix atoi rest (st\<lparr>isClientList := False\<rparr>)
      else if line = routeTableHeader then mgmtLoop parseDateToUnix atoi rest (st\<lparr>isRouteTable := True\<rparr>)
      else if line = globalStatsLine then Inr st
      else (case (if isClientList st then clientListRow parseDateToUnix atoi line st else Inr st) of
              Inl e \<Rightarrow> Inl e
            | Inr st1 \<Rightarrow>
                (case (if isRouteTable st1 then routeTableRow parseDateToUnix line st1 else Inr st1) of
                   Inl e \<Rightarrow> Inl e
                 | Inr st2 \<Rightarrow> mgmtLoop parseDateToUnix atoi rest st2)))"

definition mgmtConnectedUsersParser ::
  "(string \<Rightarrow> string \<Rightarrow> int) \<Rightarrow> (string \<Rightarrow> int) \<Rightarrow> string
     \<Rightarrow> error + (clientStatus list \<times> gauge_write list)" where
  "mgmtConnectedUsersParser parseDateToUnix atoi text =
     (case mgmtLoop parseDateToUnix atoi (scanLines text)
             \<lparr>uAcc = [], isClientList = False, isRouteTable = False, writes = []\<rparr> of
        Inl e \<Rightarrow> Inl e
      | Inr st \<Rightarrow> Inr (uAcc st, writes st))"

text \<open>
  The status report as the specification words it. A row is a line that is none of the
  four fixed lines; a client-list row has at least five fields between commas, a routing
  row at least four. \<open>sessionOf\<close> is the session of a client-list row. \<open>correlated\<close>
  says which sessions the routing rows fill: the session at position \<open>i\<close> has the virtual
  address and the last reference of a routing row of its common name when no earlier
  session has that common name and such a row exists, and has both empty otherwise.
\<close>

definition csvField :: "nat \<Rightarrow> string \<Rightarrow> string" where
  "csvField k l = split_on CHR '','' l ! k"

definition fixedLine :: "string \<Rightarrow> bool" where
  "fixedLine l = (l = clientListHeader \<or> l = routingTableLine \<or> l = routeTableHeader
                  \<or> l = globalStatsLine)"

definition clientRow :: "string \<Rightarrow> bool" where
  "clientRow l = (\<not> fixedLine l \<and> 4 < length (split_on CHR '','' l))"

definition routingRow :: "string \<Rightarrow> bool" where
  "routingRow l = (\<not> fixedLine l \<and> 3 < length (split_on CHR '','' l))"

definition sessionOf :: "string \<Rightarrow> clientStatus" where
  "sessionOf l =
     \<lparr>CommonName = csvField 0 l, RealAddress = csvField 1 l, BytesReceived = csvField 2 l,
      BytesSent = csvField 3 l, ConnectedSince = csvField 4 l, VirtualAddress = [],
      LastRef = [], ConnectedSinceFormatted = [], LastRefFormatted = []\<rparr>"

definition correlated :: "string list \<Rightarrow> clientStatus list \<Rightarrow> bool" where
  "correlated rrows us =
     (\<forall>i<length us.
        if (\<forall>j<i. CommonName (us ! j) \<noteq> CommonName (us ! i))
           \<and> (\<exists>r\<in>set rrows. csvField 1 r = CommonName (us ! i))
        then (\<exists>r\<in>set rrows. csvField 1 r = CommonName (us ! i)
                \<and> VirtualAddress (us ! i) = csvField 0 r \<and> LastRef (us ! i) = csvField 3 r)
        else VirtualAddress (us ! i) = [] \<and> LastRef (us ! i) = [])"

text \<open>The effect of one routing row on the sessions: the first of its common name is filled.\<close>

fun applyRoute :: "string \<Rightarrow> clientStatus list \<Rightarrow> clientStatus list" where
  "applyRoute l [] = []"
| "applyRoute l (c # cs) =
     (if CommonName c = csvField 1 l
      then c\<lparr>VirtualAddress := csvField 0 l, LastRef := csvField 3 l\<rparr> # cs
      else c # applyRoute l cs)"

section \<open>The helpers outside \<open>main.go\<close>\<close>

text \<open>
  \<open>main.go\<close> calls helpers that it does not define: \<open>fRead\<close>, \<open>fCreate\<close>, \<open>fWrite\<close>,
  \<open>fExist\<close>, \<open>fDelete\<close>, \<open>fDownload\<close> and \<open>runBash\<close>. They act on the file system, the
  network and the processes of the host, here a world of type \<open>'w\<close>, and are parameters of
  the model: each takes the world and returns its result with the new world.
  \<open>fDownload\<close> returns its error, \<open>None\<close> for \<open>nil\<close>. \<open>timeNow\<close> is the reading
  \<open>time.Now().Format("2006-01-02 15:04:05")\<close>.
\<close>

record 'w helpers =
  fCreate :: "string \<Rightarrow> 'w \<Rightarrow> bool \<times> 'w"
  fWrite :: "string \<Rightarrow> string \<Rightarrow> 'w \<Rightarrow> 'w"
  fExist :: "string \<Rightarrow> 'w \<Rightarrow> bool"
  fDelete :: "string \<Rightarrow> 'w \<Rightarrow> 'w"
  fDownload :: "string \<Rightarrow> string \<Rightarrow> bool \<Rightarrow> 'w \<Rightarrow> string option \<times> 'w"
  runBash :: "string \<Rightarrow> 'w \<Rightarrow> string \<times> 'w"
  timeNow :: "'w \<Rightarrow> string \<times> 'w"

section \<open>Client configuration (ccd)\<close>

record ccdRoute =
  Address :: string
  Mask :: string
  Description :: string

record Ccd =
  User :: string
  ClientAddress :: string
  CustomRoutes :: "ccdRoute list"

text \<open>\<open>strings.Trim(s, cutset)\<close> for a cutset of one byte, and \<open>strings.TrimSpace\<close>.\<close>

definition trim :: "char \<Rightarrow> string \<Rightarrow> string" where
  "trim c s = rev (dropWhile (\<lambda>x. x = c) (rev (dropWhile (\<lambda>x. x = c) s)))"


text \<open>
  One iteration of the loop of \<open>parseCcd\<close> on the tokens of a line. \<open>str[1]\<close>, \<open>str[2]\<close>
  and \<open>str[3]\<close> are read without a check of the length; \<open>str[4:]\<close> is then in range.
\<close>

definition parseCcdLine :: "string list \<Rightarrow> Ccd \<Rightarrow> error + Ccd" where
  "parseCcdLine str ccd =
     (if length str > 0 then
        (if hasPrefix (str ! 0) ''ifconfig-push'' then
           (if 1 < length str then Inr (ccd\<lparr>ClientAddress := str ! 1\<rparr>)
            else Inl IndexOutOfRange)
         else if hasPrefix (str ! 0) ''push'' then
           (if 3 < length str then
              Inr (ccd\<lparr>CustomRoutes := CustomRoutes ccd
                     @ [\<lparr>Address = trim (CHR 0x22) (str ! 2), Mask = trim (CHR 0x22) (str ! 3),
                         Description = trim CHR ''#'' (concat (drop 4 str))\<rparr>]\<rparr>)
            else Inl IndexOutOfRange)
         else Inr ccd)
      else Inr ccd)"

fun parseCcdLoop :: "string list \<Rightarrow> Ccd \<Rightarrow> error + Ccd" where
  "parseCcdLoop [] ccd = Inr ccd"
| "parseCcdLoop (v # vs) ccd =
     (case parseCcdLine (Fields v) ccd of
        Inl e \<Rightarrow> Inl e
      | Inr ccd' \<Rightarrow> parseCcdLoop vs ccd')"

text \<open>\<open>parseCcd\<close>; the text is what \<open>fRead\<close>, a parameter, returns for the file of the user.\<close>

definition parseCcd :: "(string \<Rightarrow> string) \<Rightarrow> string \<Rightarrow> string \<Rightarrow> error + Ccd" where
  "parseCcd fRead ccdDir username =
     parseCcdLoop (split_on CHR 0x0A (fRead (ccdDir @ ''/'' @ username)))
       \<lparr>User = username, ClientAddress = ''dynamic'', CustomRoutes = []\<rparr>"



definition dq :: string where
  "dq = [CHR 0x22]"








section \<open>Sample instances of the parameters\<close>








text \<open>
  Modelled from the spec: the helpers on files, which \<open>main.go\<close> does not define. The
  world is a map from paths to contents. \<open>fCreate\<close> ensures that the file exists, creating
  an empty one if it is absent; \<open>fWrite\<close> overwrites the content. Every command prints
  the line \<open>scanCount\<close>, the count that the scan for an address is to report; every
  download fails.
\<close>

definition memHelpers :: "string \<Rightarrow> (string \<rightharpoonup> string) helpers" where
  "memHelpers scanCount =
     \<lparr>fCreate = (\<lambda>p fs. (True, if fs p = None then fs(p \<mapsto> []) else fs)),
      fWrite = (\<lambda>p c fs. fs(p \<mapsto> c)),
      fExist = (\<lambda>p fs. fs p \<noteq> None),
      fDelete = (\<lambda>p fs. fs(p := None)),
      fDownload = (\<lambda>p url auth fs. (Some ''connection refused'', fs)),
      runBash = (\<lambda>cmd fs. (scanCount @ [CHR 0x0A], fs)),
      timeNow = (\<lambda>fs. (''2024-01-02 15:04:05'', fs))\<rparr>"

section \<open>Replication\<close>

record OpenvpnAdmin =
  role :: string
  lastSyncTime :: string
  lastSuccessfulSyncTime :: string
  masterHostBasicAuth :: bool
  masterSyncToken :: string
  clients :: "OpenvpnClient list"
  activeClients :: "clientStatus list"



definition certsArchiveFileName :: string where
  "certsArchiveFileName = ''certs.tar.gz''"

definition ccdArchiveFileName :: string where
  "ccdArchiveFileName = ''ccd.tar.gz''"

definition certsArchivePath :: string where
  "certsArchivePath = ''/tmp/'' @ certsArchiveFileName"

definition ccdArchivePath :: string where
  "ccdArchivePath = ''/tmp/'' @ ccdArchiveFileName"



text \<open>The four commands on archives; what they print goes to the standard output.\<close>

definition archiveCerts :: "'w helpers \<Rightarrow> string \<Rightarrow> 'w \<Rightarrow> 'w" where
  "archiveCerts h easyrsaDirPath w =
     snd (runBash h (''cd '' @ easyrsaDirPath @ ''/pki'' @ '' && tar -czf '' @ certsArchivePath
                       @ '' *'') w)"

definition archiveCcd :: "'w helpers \<Rightarrow> string \<Rightarrow> 'w \<Rightarrow> 'w" where
  "archiveCcd h ccdDir w =
     snd (runBash h (''cd '' @ ccdDir @ '' && tar -czf '' @ ccdArchivePath @ '' *'') w)"









section \<open>The download endpoints\<close>

text \<open>
  What a handler writes: \<open>http.Error\<close> with a body and a status code, or the headers it
  sets followed by \<open>http.ServeFile\<close> on a path. \<open>formToken\<close> is \<open>r.Form.Get("token")\<close>.
\<close>

datatype httpResponse = HttpError string nat | ServeFile "(string \<times> string) list" string

definition statusLocked :: nat where
  "statusLocked = 423"

definition statusForbidden :: nat where
  "statusForbidden = 403"

definition errorBody :: string where
  "errorBody = ''{'' @ dq @ ''status'' @ dq @ '':'' @ dq @ ''error'' @ dq @ ''}''"

definition downloadCertsHandler ::
  "'w helpers \<Rightarrow> string \<Rightarrow> OpenvpnAdmin \<Rightarrow> string \<Rightarrow> 'w \<Rightarrow> httpResponse \<times> 'w" where
  "downloadCertsHandler h easyrsaDirPath oAdmin formToken w =
     (if role oAdmin = ''slave'' then (HttpError errorBody statusLocked, w)
      else if formToken \<noteq> masterSyncToken oAdmin then (HttpError errorBody statusForbidden, w)
      else (ServeFile [(''Content-Disposition'', ''attachment; filename='' @ certsArchiveFileName)]
              certsArchivePath,
            archiveCerts h easyrsaDirPath w))"

definition downloadCddHandler ::
  "'w helpers \<Rightarrow> string \<Rightarrow> OpenvpnAdmin \<Rightarrow> string \<Rightarrow> 'w \<Rightarrow> httpResponse \<times> 'w" where
  "downloadCddHandler h ccdDir oAdmin formToken w =
     (if role oAdmin = ''slave'' then (HttpError errorBody statusLocked, w)
      else if formToken \<noteq> masterSyncToken oAdmin then (HttpError errorBody statusForbidden, w)
      else (ServeFile [(''Content-Disposition'', ''attachment; filename='' @ ccdArchiveFileName)]
              ccdArchivePath,
            archiveCcd h ccdDir w))"

text \<open>A receiver as \<open>main\<close> sets it up on a slave, with the default token.\<close>

definition slaveAdmin :: OpenvpnAdmin where
  "slaveAdmin = \<lparr>role = ''slave'', lastSyncTime = ''unknown'', lastSuccessfulSyncTime = ''unknown'',
                 masterHostBasicAuth = False, masterSyncToken = ''justasimpleword'',
                 clients = [], activeClients = []\<rparr>"

text \<open>A status report: two sessions of one common name, and one routing row for it.\<close>

definition sampleReport :: string where
  "sampleReport =
     ''OpenVPN CLIENT LIST'' @ nl
     @ clientListHeader @ nl
     @ ''alice,10.0.0.5,100,200,Mon Jan 2 15:04:05 2024'' @ nl
     @ ''alice,10.0.0.6,1,2,Mon Jan 2 15:04:09 2024'' @ nl
     @ routingTableLine @ nl
     @ routeTableHeader @ nl
     @ ''172.16.100.10,alice,10.0.0.5,Mon Jan 2 15:05:00 2024'' @ nl
     @ globalStatsLine @ nl
     @ ''END'' @ nl"

section \<open>Properties of the registry parser\<close>

lemma after_first_Some:
  "after_first c s = Some r \<Longrightarrow> \<exists>pre. c \<notin> set pre \<and> s = pre @ c # r"
proof (induction s)
  case Nil
  then show ?case by simp
next
  case (Cons x xs)
  show ?case
  proof (cases "x = c")
    case True
    with Cons.prems have "r = xs" by simp
    with True have "c \<notin> set [] \<and> x # xs = [] @ c # r" by simp
    then show ?thesis by blast
  next
    case False
    with Cons.prems have "after_first c xs = Some r" by simp
    from Cons.IH [OF this] obtain pre where "c \<notin> set pre" "xs = pre @ c # r" by blast
    with False have "c \<notin> set (x # pre) \<and> x # xs = (x # pre) @ c # r" by simp
    then show ?thesis by blast
  qed
qed

lemma after_first_None: "after_first c s = None \<longleftrightarrow> c \<notin> set s"
  by (induction s) auto

lemma indexTxtParseLine_identity:
  "indexTxtParseLine str = Inr (Some l) \<Longrightarrow> Identity l = sliceAfterIndex CHR ''='' (DistinguishedName l)"
  by (auto simp: indexTxtParseLine_def split: if_splits)

lemma indexTxtLoop_all:
  "indexTxtLoop vs acc = Inr recs \<Longrightarrow> \<forall>r\<in>set acc. P r \<Longrightarrow>
   (\<And>str l. indexTxtParseLine str = Inr (Some l) \<Longrightarrow> P l) \<Longrightarrow> \<forall>r\<in>set recs. P r"
proof (induction vs arbitrary: acc)
  case Nil
  then show ?case by simp
next
  case (Cons v vs)
  show ?case
  proof (cases "indexTxtParseLine (Fields v)")
    case (Inl e)
    with Cons.prems(1) show ?thesis by simp
  next
    case (Inr o1)
    show ?thesis
    proof (cases o1)
      case None
      with Inr Cons.prems(1) have "indexTxtLoop vs acc = Inr recs" by simp
      from Cons.IH [OF this Cons.prems(2) Cons.prems(3)] show ?thesis by simp
    next
      case (Some l)
      with Inr Cons.prems(1) have run: "indexTxtLoop vs (acc @ [l]) = Inr recs" by simp
      from Some Inr have "P l" using Cons.prems(3) by blast
      with Cons.prems(2) have "\<forall>r\<in>set (acc @ [l]). P r" by simp
      from Cons.IH [OF run this Cons.prems(3)] show ?thesis by simp
    qed
  qed
qed

lemma sliceAfterIndex_spec:
  "(c \<in> set s \<longrightarrow> (\<exists>pre. c \<notin> set pre \<and> s = pre @ c # sliceAfterIndex c s))
   \<and> (c \<notin> set s \<longrightarrow> sliceAfterIndex c s = s)"
proof (cases "after_first c s")
  case None
  then have "c \<notin> set s" by (simp add: after_first_None)
  with None show ?thesis by (simp add: sliceAfterIndex_def)
next
  case (Some r)
  from after_first_Some [OF Some] obtain pre where p: "c \<notin> set pre" "s = pre @ c # r" by blast
  have "sliceAfterIndex c s = r" using Some by (simp add: sliceAfterIndex_def)
  with p show ?thesis by auto
qed

text \<open>
  Claim C9. The identity of every parsed record is the part of its distinguished name after
  the first \<open>=\<close> (the whole name when it has none), and the line
  \<open>V 250101000000Z  ABCD1234 unknown /CN=alice\<close>, tab-separated, parses to the one
  record of flag \<open>V\<close>, identity \<open>alice\<close> and expiration date \<open>250101000000Z\<close>.
\<close>

theorem identity_follows_first_equals:
  "(\<forall>txt recs r. indexTxtParser txt = Inr recs \<and> r \<in> set recs \<longrightarrow>
      (CHR ''='' \<in> set (DistinguishedName r) \<longrightarrow>
         (\<exists>pre. CHR ''='' \<notin> set pre \<and> DistinguishedName r = pre @ CHR ''='' # Identity r))
      \<and> (CHR ''='' \<notin> set (DistinguishedName r) \<longrightarrow> Identity r = DistinguishedName r))
   \<and> indexTxtParser (''V'' @ tab @ ''250101000000Z'' @ tab @ tab @ ''ABCD1234'' @ tab
                        @ ''unknown'' @ tab @ ''/CN=alice'' @ nl)
       = Inr [\<lparr>Flag = ''V'', ExpirationDate = ''250101000000Z'', RevocationDate = [],
               SerialNumber = ''ABCD1234'', Filename = ''unknown'',
               DistinguishedName = ''/CN=alice'', Identity = ''alice''\<rparr>]"
proof (intro conjI allI)
  fix t recs r
  show "indexTxtParser t = Inr recs \<and> r \<in> set recs \<longrightarrow>
      (CHR ''='' \<in> set (DistinguishedName r) \<longrightarrow>
         (\<exists>pre. CHR ''='' \<notin> set pre \<and> DistinguishedName r = pre @ CHR ''='' # Identity r))
      \<and> (CHR ''='' \<notin> set (DistinguishedName r) \<longrightarrow> Identity r = DistinguishedName r)"
  proof
  assume a: "indexTxtParser t = Inr recs \<and> r \<in> set recs"
  then have run: "indexTxtLoop (split_on CHR 0x0A t) [] = Inr recs"
    by (simp add: indexTxtParser_def)
  have "\<forall>r\<in>set recs. Identity r = sliceAfterIndex CHR ''='' (DistinguishedName r)"
    by (rule indexTxtLoop_all [OF run]) (simp_all add: indexTxtParseLine_identity)
  with a have idr: "Identity r = sliceAfterIndex CHR ''='' (DistinguishedName r)" by blast
  note sp = sliceAfterIndex_spec [of "CHR ''=''" "DistinguishedName r"]
  from sp idr
  show "(CHR ''='' \<in> set (DistinguishedName r) \<longrightarrow>
         (\<exists>pre. CHR ''='' \<notin> set pre \<and> DistinguishedName r = pre @ CHR ''='' # Identity r))
      \<and> (CHR ''='' \<notin> set (DistinguishedName r) \<longrightarrow> Identity r = DistinguishedName r)"
    by simp
  qed
next
  show "indexTxtParser (''V'' @ tab @ ''250101000000Z'' @ tab @ tab @ ''ABCD1234'' @ tab
                        @ ''unknown'' @ tab @ ''/CN=alice'' @ nl)
       = Inr [\<lparr>Flag = ''V'', ExpirationDate = ''250101000000Z'', RevocationDate = [],
               SerialNumber = ''ABCD1234'', Filename = ''unknown'',
               DistinguishedName = ''/CN=alice'', Identity = ''alice''\<rparr>]"
    by (simp add: indexTxtParser_def split_on_def Fields_def tab_def nl_def isSpace_def
        indexTxtParseLine_def hasPrefix_def sliceAfterIndex_def)
qed

theorem identity_follows_first_equals_witness:
  "indexTxtParser (''R 2501 2402 0A f /C=US/CN=bob'') =
     Inr [\<lparr>Flag = ''R'', ExpirationDate = ''2501'', RevocationDate = ''2402'',
               SerialNumber = ''0A'', Filename = ''f'',
               DistinguishedName = ''/C=US/CN=bob'', Identity = ''US/CN=bob''\<rparr>]
   \<and> (\<exists>pre. CHR ''='' \<notin> set pre \<and> ''/C=US/CN=bob'' = pre @ CHR ''='' # ''US/CN=bob'')"
proof -
  let ?r = "\<lparr>Flag = ''R'', ExpirationDate = ''2501'', RevocationDate = ''2402'',
               SerialNumber = ''0A'', Filename = ''f'',
               DistinguishedName = ''/C=US/CN=bob'', Identity = ''US/CN=bob''\<rparr>"
  have p: "indexTxtParser (''R 2501 2402 0A f /C=US/CN=bob'') = Inr [?r]"
    by (simp add: indexTxtParser_def split_on_def Fields_def isSpace_def
        indexTxtParseLine_def hasPrefix_def sliceAfterIndex_def)
  from identity_follows_first_equals
  have "indexTxtParser (''R 2501 2402 0A f /C=US/CN=bob'') = Inr [?r] \<and> ?r \<in> set [?r] \<longrightarrow>
      (CHR ''='' \<in> set (DistinguishedName ?r) \<longrightarrow>
         (\<exists>pre. CHR ''='' \<notin> set pre \<and> DistinguishedName ?r = pre @ CHR ''='' # Identity ?r))"
    by blast
  with p show ?thesis by simp
qed

text \<open>
  Claim C10. \<open>getUserStatistic\<close> returns the first session whose common name is the
  username; when no session matches it returns the record of empty strings, which is also
  what a matching session of empty fields gives.
\<close>

theorem getUserStatistic_first_or_zero:
  "(\<forall>pre u post. (\<forall>x\<in>set pre. CommonName x \<noteq> username) \<and> CommonName u = username \<longrightarrow>
      getUserStatistic (pre @ u # post) username = u)
   \<and> ((\<forall>x\<in>set active. CommonName x \<noteq> username) \<longrightarrow>
        getUserStatistic active username =
          \<lparr>CommonName = [], RealAddress = [], BytesReceived = [], BytesSent = [],
           ConnectedSince = [], VirtualAddress = [], LastRef = [],
           ConnectedSinceFormatted = [], LastRefFormatted = []\<rparr>)
   \<and> getUserStatistic [clientStatusZero] [] = getUserStatistic [] []"
proof (intro conjI allI impI)
  fix pre :: "clientStatus list" and u :: clientStatus and post :: "clientStatus list"
  assume "(\<forall>x\<in>set pre. CommonName x \<noteq> username) \<and> CommonName u = username"
  then show "getUserStatistic (pre @ u # post) username = u"
    by (induction pre) auto
next
  assume "\<forall>x\<in>set active. CommonName x \<noteq> username"
  then have "getUserStatistic active username = clientStatusZero"
    by (induction active) auto
  then show "getUserStatistic active username =
          \<lparr>CommonName = [], RealAddress = [], BytesReceived = [], BytesSent = [],
           ConnectedSince = [], VirtualAddress = [], LastRef = [],
           ConnectedSinceFormatted = [], LastRefFormatted = []\<rparr>"
    by (simp add: clientStatusZero_def)
next
  show "getUserStatistic [clientStatusZero] [] = getUserStatistic [] []"
    by (simp add: clientStatusZero_def)
qed


theorem getUserStatistic_first_or_zero_witness:
  "getUserStatistic
     [clientStatusZero\<lparr>CommonName := ''bob''\<rparr>,
      clientStatusZero\<lparr>CommonName := ''alice'', RealAddress := ''10.0.0.5''\<rparr>,
      clientStatusZero\<lparr>CommonName := ''alice'', RealAddress := ''10.0.0.6''\<rparr>] ''alice''
     = clientStatusZero\<lparr>CommonName := ''alice'', RealAddress := ''10.0.0.5''\<rparr>
   \<and> getUserStatistic [clientStatusZero\<lparr>CommonName := ''bob''\<rparr>] ''alice'' = clientStatusZero"
proof -
  let ?b = "clientStatusZero\<lparr>CommonName := ''bob''\<rparr>"
  let ?a1 = "clientStatusZero\<lparr>CommonName := ''alice'', RealAddress := ''10.0.0.5''\<rparr>"
  let ?a2 = "clientStatusZero\<lparr>CommonName := ''alice'', RealAddress := ''10.0.0.6''\<rparr>"
  note t = getUserStatistic_first_or_zero [of "''alice''" "[?b]"]
  from t have "(\<forall>x\<in>set [?b]. CommonName x \<noteq> ''alice'') \<and> CommonName ?a1 = ''alice'' \<longrightarrow>
      getUserStatistic ([?b] @ ?a1 # [?a2]) ''alice'' = ?a1"
    by blast
  moreover from t have "(\<forall>x\<in>set [?b]. CommonName x \<noteq> ''alice'') \<longrightarrow>
      getUserStatistic [?b] ''alice'' = clientStatusZero"
    by (simp add: clientStatusZero_def)
  ultimately show ?thesis by simp
qed

section \<open>Properties of the reconciliation\<close>

lemma isUserConnected_iff:
  "isUserConnected username cs \<longleftrightarrow> (\<exists>s\<in>set cs. CommonName s = username)"
  by (induction cs) auto

lemma usersListStep_client:
  assumes "Identity line \<noteq> ''server''"
  shows "usersListStep pds pdu now active line st =
     st\<lparr>users := users st @ [clientView pds active line],
        totalCerts := totalCerts st + 1,
        validCerts := validCerts st + (if Flag line = ''V'' then 1 else 0),
        revokedCerts := revokedCerts st + (if Flag line = ''R'' then 1 else 0),
        expiredCerts := expiredCerts st + (if Flag line = ''E'' then 1 else 0),
        connectedUsers := connectedUsers st
           + (if (\<exists>s\<in>set active. CommonName s = Identity line) then 1 else 0),
        gauges := gauges st @ lineGauges pdu now line\<rparr>"
  using assms
  by (simp add: usersListStep_def usersListSwitch_def Let_def clientView_def lineGauges_def
      isUserConnected_iff)

lemma usersListStep_server:
  assumes "Identity line = ''server''"
  shows "usersListStep pds pdu now active line st =
     st\<lparr>gauges := gauges st @ lineGauges pdu now line\<rparr>"
  using assms by (simp add: usersListStep_def lineGauges_def)

lemma usersListLoop_char:
  "usersListLoop pds pdu now active ls st =
     st\<lparr>users := users st @ map (clientView pds active) (filter isClient ls),
        totalCerts := totalCerts st + int (length (filter isClient ls)),
        validCerts := validCerts st + int (length (filter (\<lambda>l. isClient l \<and> Flag l = ''V'') ls)),
        revokedCerts := revokedCerts st + int (length (filter (\<lambda>l. isClient l \<and> Flag l = ''R'') ls)),
        expiredCerts := expiredCerts st + int (length (filter (\<lambda>l. isClient l \<and> Flag l = ''E'') ls)),
        connectedUsers := connectedUsers st
           + int (length (filter (\<lambda>l. isClient l \<and> (\<exists>s\<in>set active. CommonName s = Identity l)) ls)),
        gauges := gauges st @ concat (map (lineGauges pdu now) ls)\<rparr>"
proof (induction ls arbitrary: st)
  case Nil
  then show ?case by simp
next
  case (Cons line ls)
  show ?case
  proof (cases "Identity line = ''server''")
    case True
    then show ?thesis
      by (simp add: Cons.IH usersListStep_server isClient_def)
  next
    case False
    then show ?thesis
      by (simp add: Cons.IH usersListStep_client isClient_def)
  qed
qed

text \<open>
  Claim C3. On a registry that parses, \<open>usersList\<close> returns one view per record whose
  identity is not \<open>server\<close>, in order: the account status is \<open>Active\<close>, \<open>Revoked\<close> (with
  the revocation date) or \<open>Expired\<close> by the flag, and the connection status is
  \<open>Connected\<close> exactly when a session has the identity as its common name. A record of
  identity \<open>server\<close> gives no view and is not counted; its one gauge write is the server
  certificate expiry.
\<close>

theorem usersList_views:
  assumes "indexTxtParser (fRead indexTxtPath) = Inr ls"
  shows "usersList fRead pds pdu indexTxtPath now active =
     Inr (map (clientView pds active) (filter isClient ls),
          concat (map (lineGauges pdu now) ls)
            @ [OvpnClientsTotal (int (length (filter isClient ls))),
               OvpnClientsRevoked (int (length (filter (\<lambda>l. isClient l \<and> Flag l = ''R'') ls))),
               OvpnClientsExpired (int (length (filter (\<lambda>l. isClient l \<and> Flag l = ''E'') ls))),
               OvpnClientsConnected
                 (int (length (filter (\<lambda>l. isClient l \<and> (\<exists>s\<in>set active. CommonName s = Identity l)) ls)))])"
  using assms by (simp add: usersList_def usersListLoop_char usersListInit_def)

theorem usersList_views_witness:
  "usersList (\<lambda>p. ''V e1 s1 f /CN=alice'' @ nl @ ''V e2 s2 f /CN=server'' @ nl @ ''R e3 r3 s3 f /CN=bob'' @ nl)
     (\<lambda>layout d fmt. d) (\<lambda>layout d. 259200) ''index.txt'' 0
     [clientStatusZero\<lparr>CommonName := ''alice''\<rparr>]
   = Inr ([\<lparr>ocIdentity = ''alice'', AccountStatus = ''Active'', ocExpirationDate = ''e1'',
             ocRevocationDate = [], ConnectionStatus = ''Connected''\<rparr>,
           \<lparr>ocIdentity = ''bob'', AccountStatus = ''Revoked'', ocExpirationDate = ''e3'',
             ocRevocationDate = ''r3'', ConnectionStatus = []\<rparr>],
          [OvpnClientCertificateExpire ''alice'' 3, OvpnServerCertExpire 3,
           OvpnClientCertificateExpire ''bob'' 3,
           OvpnClientsTotal 2, OvpnClientsRevoked 1, OvpnClientsExpired 0, OvpnClientsConnected 1])"
proof -
  let ?fRead = "\<lambda>p::string. ''V e1 s1 f /CN=alice'' @ nl @ ''V e2 s2 f /CN=server'' @ nl @ ''R e3 r3 s3 f /CN=bob'' @ nl"
  let ?ls = "[\<lparr>Flag = ''V'', ExpirationDate = ''e1'', RevocationDate = [], SerialNumber = ''s1'',
               Filename = ''f'', DistinguishedName = ''/CN=alice'', Identity = ''alice''\<rparr>,
              \<lparr>Flag = ''V'', ExpirationDate = ''e2'', RevocationDate = [], SerialNumber = ''s2'',
               Filename = ''f'', DistinguishedName = ''/CN=server'', Identity = ''server''\<rparr>,
              \<lparr>Flag = ''R'', ExpirationDate = ''e3'', RevocationDate = ''r3'', SerialNumber = ''s3'',
               Filename = ''f'', DistinguishedName = ''/CN=bob'', Identity = ''bob''\<rparr>]"
  have p: "indexTxtParser (?fRead ''index.txt'') = Inr ?ls"
    by (simp add: indexTxtParser_def split_on_def Fields_def nl_def isSpace_def
        indexTxtParseLine_def hasPrefix_def sliceAfterIndex_def)
  note v = usersList_views [where fRead = ?fRead and indexTxtPath = "''index.txt''" and ls = ?ls
      and pds = "\<lambda>layout d fmt. d" and pdu = "\<lambda>layout d. 259200" and now = 0
      and active = "[clientStatusZero\<lparr>CommonName := ''alice''\<rparr>]"]
  show ?thesis
    using v p
    by (simp add: clientView_def lineGauges_def isClient_def expireDays_def go_div_def
        clientStatusZero_def indexTxtDateLayout_def stringDateFormat_def)
qed

section \<open>The round trip of the registry\<close>


























section \<open>Parsing is partial; validation and application of a client configuration\<close>

text \<open>
  Claim C2. Parsing is not total: a line whose first token is recognised and that has too
  few tokens makes both parsers panic with an index out of range. The registry line is
  the single token \<open>V\<close>; the policy line is the single token \<open>ifconfig-push\<close>.
\<close>

theorem short_lines_panic:
  "indexTxtParser ''V'' = Inl IndexOutOfRange
   \<and> indexTxtParser (''R 250101000000Z 240101000000Z 0A unknown'' @ nl) = Inl IndexOutOfRange
   \<and> parseCcd (\<lambda>p. ''ifconfig-push'') ''/mnt/ccd'' ''bob'' = Inl IndexOutOfRange
   \<and> parseCcd (\<lambda>p. ''push route 10.0.0.0'' @ nl) ''/mnt/ccd'' ''bob'' = Inl IndexOutOfRange"
  by (simp add: indexTxtParser_def parseCcd_def split_on_def Fields_def nl_def isSpace_def
      indexTxtParseLine_def parseCcdLine_def hasPrefix_def)


















section \<open>Replication and the download endpoints\<close>










text \<open>
  Claim C8, amended. The two download handlers answer 423 on a slave, whatever the token,
  and change nothing; on another role they answer 403 when the token differs from the
  sync token, and change nothing; otherwise they run the archive command and serve the
  archive with the header \<open>Content-Disposition: attachment\<close>.
\<close>

theorem download_endpoints_guarded:
  "(role oAdmin = ''slave'' \<longrightarrow>
      downloadCertsHandler h easyrsaDirPath oAdmin formToken w = (HttpError errorBody 423, w)
      \<and> downloadCddHandler h ccdDir oAdmin formToken w = (HttpError errorBody 423, w))
   \<and> (role oAdmin \<noteq> ''slave'' \<and> formToken \<noteq> masterSyncToken oAdmin \<longrightarrow>
      downloadCertsHandler h easyrsaDirPath oAdmin formToken w = (HttpError errorBody 403, w)
      \<and> downloadCddHandler h ccdDir oAdmin formToken w = (HttpError errorBody 403, w))
   \<and> (role oAdmin \<noteq> ''slave'' \<and> formToken = masterSyncToken oAdmin \<longrightarrow>
      downloadCertsHandler h easyrsaDirPath oAdmin formToken w =
        (ServeFile [(''Content-Disposition'', ''attachment; filename=certs.tar.gz'')]
           ''/tmp/certs.tar.gz'',
         archiveCerts h easyrsaDirPath w)
      \<and> downloadCddHandler h ccdDir oAdmin formToken w =
        (ServeFile [(''Content-Disposition'', ''attachment; filename=ccd.tar.gz'')]
           ''/tmp/ccd.tar.gz'',
         archiveCcd h ccdDir w))"
  by (simp add: downloadCertsHandler_def downloadCddHandler_def statusLocked_def
      statusForbidden_def certsArchiveFileName_def ccdArchiveFileName_def certsArchivePath_def
      ccdArchivePath_def)

theorem download_endpoints_guarded_witness:
  "downloadCertsHandler (memHelpers ''0'') ''/mnt/easyrsa'' (slaveAdmin\<lparr>role := ''master''\<rparr>)
      ''wrong'' Map.empty = (HttpError errorBody 403, Map.empty)
   \<and> downloadCddHandler (memHelpers ''0'') ''/mnt/ccd'' slaveAdmin ''justasimpleword'' Map.empty
       = (HttpError errorBody 423, Map.empty)
   \<and> fst (downloadCertsHandler (memHelpers ''0'') ''/mnt/easyrsa'' (slaveAdmin\<lparr>role := ''master''\<rparr>)
      ''justasimpleword'' Map.empty)
       = ServeFile [(''Content-Disposition'', ''attachment; filename=certs.tar.gz'')]
           ''/tmp/certs.tar.gz''"
proof -
  let ?m = "slaveAdmin\<lparr>role := ''master''\<rparr>"
  let ?h = "memHelpers ''0''"
  let ?e = "Map.empty :: string \<rightharpoonup> string"
  have m: "role ?m \<noteq> ''slave''" "masterSyncToken ?m = ''justasimpleword''"
    "role slaveAdmin = ''slave''"
    by (simp_all add: slaveAdmin_def)
  from download_endpoints_guarded [of ?m ?h "''/mnt/easyrsa''" "''wrong''" ?e "''/mnt/ccd''"] m
  have a: "downloadCertsHandler ?h ''/mnt/easyrsa'' ?m ''wrong'' ?e = (HttpError errorBody 403, ?e)"
    by simp
  from download_endpoints_guarded [of slaveAdmin ?h "''/mnt/easyrsa''" "''justasimpleword''" ?e "''/mnt/ccd''"] m
  have b: "downloadCddHandler ?h ''/mnt/ccd'' slaveAdmin ''justasimpleword'' ?e = (HttpError errorBody 423, ?e)"
    by simp
  from download_endpoints_guarded [of ?m ?h "''/mnt/easyrsa''" "''justasimpleword''" ?e "''/mnt/ccd''"] m
  have c: "fst (downloadCertsHandler ?h ''/mnt/easyrsa'' ?m ''justasimpleword'' ?e)
       = ServeFile [(''Content-Disposition'', ''attachment; filename=certs.tar.gz'')]
           ''/tmp/certs.tar.gz''"
    by simp
  from a b c show ?thesis by blast
qed

text \<open>
  On a slave a request with a wrong token is answered 423, not 403: the role is checked
  before the token.
\<close>

theorem token_mismatch_on_slave_is_locked:
  "''wrong'' \<noteq> masterSyncToken slaveAdmin
   \<and> downloadCertsHandler (memHelpers ''0'') ''/mnt/easyrsa'' slaveAdmin ''wrong'' Map.empty
       = (HttpError errorBody 423, Map.empty)
   \<and> fst (downloadCertsHandler (memHelpers ''0'') ''/mnt/easyrsa'' slaveAdmin ''wrong'' Map.empty)
       \<noteq> HttpError errorBody 403"
  by (simp add: downloadCertsHandler_def slaveAdmin_def statusLocked_def)

section \<open>Properties of the status report parser\<close>

lemma fixed_lines_distinct:
  "clientListHeader \<noteq> routingTableLine" "clientListHeader \<noteq> routeTableHeader"
  "clientListHeader \<noteq> globalStatsLine" "routingTableLine \<noteq> routeTableHeader"
  "routingTableLine \<noteq> globalStatsLine" "routeTableHeader \<noteq> globalStatsLine"
  by (simp_all add: clientListHeader_def routingTableLine_def routeTableHeader_def
      globalStatsLine_def)

lemma mgmtLoop_preamble:
  "\<not> isClientList st \<Longrightarrow> \<not> isRouteTable st \<Longrightarrow> \<forall>l\<in>set pre. \<not> fixedLine l \<Longrightarrow>
   mgmtLoop pdu atoi (pre @ rest) st = mgmtLoop pdu atoi rest st"
  by (induction pre) (simp_all add: fixedLine_def)

lemma clientListRow_session:
  assumes "clientRow l"
  shows "\<exists>ws. clientListRow pdu atoi l st = Inr (st\<lparr>uAcc := uAcc st @ [sessionOf l], writes := ws\<rparr>)"
proof -
  from assms have "clientListRow pdu atoi l st =
      Inr (st\<lparr>uAcc := uAcc st @ [sessionOf l],
              writes := writes st
                @ [OvpnClientConnectionFrom (csvField 0 l) (csvField 1 l)
                     (pdu ovpnStatusDateLayout (csvField 4 l)),
                   OvpnClientBytesSent (csvField 0 l) (atoi (csvField 3 l)),
                   OvpnClientBytesReceived (csvField 0 l) (atoi (csvField 2 l))]\<rparr>)"
    by (simp add: clientListRow_def clientRow_def sessionOf_def csvField_def Let_def)
  then show ?thesis by blast
qed

lemma mgmtLoop_client_rows:
  "isClientList st \<Longrightarrow> \<not> isRouteTable st \<Longrightarrow> \<forall>l\<in>set crows. clientRow l \<Longrightarrow>
   \<exists>ws. mgmtLoop pdu atoi (crows @ rest) st =
         mgmtLoop pdu atoi rest (st\<lparr>uAcc := uAcc st @ map sessionOf crows, writes := ws\<rparr>)"
proof (induction crows arbitrary: st)
  case Nil
  have "st = st\<lparr>uAcc := uAcc st @ map sessionOf [], writes := writes st\<rparr>" by simp
  then have "mgmtLoop pdu atoi ([] @ rest) st =
         mgmtLoop pdu atoi rest (st\<lparr>uAcc := uAcc st @ map sessionOf [], writes := writes st\<rparr>)"
    by simp
  then show ?case by blast
next
  case (Cons l crows)
  then have row: "clientRow l" and rows: "\<forall>l\<in>set crows. clientRow l" by simp_all
  from row have nf: "l \<noteq> clientListHeader" "l \<noteq> routingTableLine" "l \<noteq> routeTableHeader"
    "l \<noteq> globalStatsLine" by (auto simp: clientRow_def fixedLine_def)
  from clientListRow_session [OF row, of pdu atoi st] obtain ws1 where
    r: "clientListRow pdu atoi l st = Inr (st\<lparr>uAcc := uAcc st @ [sessionOf l], writes := ws1\<rparr>)"
    by blast
  let ?st1 = "st\<lparr>uAcc := uAcc st @ [sessionOf l], writes := ws1\<rparr>"
  from Cons.prems(1,2) have flags: "isClientList ?st1" "\<not> isRouteTable ?st1" by simp_all
  from Cons.IH [OF flags rows] obtain ws where
    ih: "mgmtLoop pdu atoi (crows @ rest) ?st1 =
         mgmtLoop pdu atoi rest (?st1\<lparr>uAcc := uAcc ?st1 @ map sessionOf crows, writes := ws\<rparr>)"
    by blast
  have "mgmtLoop pdu atoi ((l # crows) @ rest) st = mgmtLoop pdu atoi (crows @ rest) ?st1"
    using nf r Cons.prems(1,2) by simp
  also note ih
  also have "?st1\<lparr>uAcc := uAcc ?st1 @ map sessionOf crows, writes := ws\<rparr>
             = st\<lparr>uAcc := uAcc st @ map sessionOf (l # crows), writes := ws\<rparr>" by simp
  finally show ?case by blast
qed

lemma fillRoute_applyRoute:
  "3 < length (split_on CHR '','' l) \<Longrightarrow>
   \<exists>ws. fillRoute pdu (split_on CHR '','' l) cs = Inr (applyRoute l cs, ws)"
  by (induction cs) (auto simp: csvField_def)

lemma mgmtLoop_routing_rows:
  "\<not> isClientList st \<Longrightarrow> isRouteTable st \<Longrightarrow> \<forall>l\<in>set rrows. routingRow l \<Longrightarrow>
   \<exists>ws. mgmtLoop pdu atoi (rrows @ rest) st =
         mgmtLoop pdu atoi rest
           (st\<lparr>uAcc := foldl (\<lambda>cs l. applyRoute l cs) (uAcc st) rrows, writes := ws\<rparr>)"
proof (induction rrows arbitrary: st)
  case Nil
  have "st = st\<lparr>uAcc := foldl (\<lambda>cs l. applyRoute l cs) (uAcc st) [], writes := writes st\<rparr>"
    by simp
  then have "mgmtLoop pdu atoi ([] @ rest) st = mgmtLoop pdu atoi rest
           (st\<lparr>uAcc := foldl (\<lambda>cs l. applyRoute l cs) (uAcc st) [], writes := writes st\<rparr>)"
    by simp
  then show ?case by blast
next
  case (Cons l rrows)
  then have row: "routingRow l" and rows: "\<forall>l\<in>set rrows. routingRow l" by simp_all
  from row have nf: "l \<noteq> clientListHeader" "l \<noteq> routingTableLine" "l \<noteq> routeTableHeader"
    "l \<noteq> globalStatsLine" by (auto simp: routingRow_def fixedLine_def)
  from row have len: "3 < length (split_on CHR '','' l)" by (simp add: routingRow_def)
  from fillRoute_applyRoute [OF len, of pdu "uAcc st"] obtain ws0 where
    f: "fillRoute pdu (split_on CHR '','' l) (uAcc st) = Inr (applyRoute l (uAcc st), ws0)"
    by blast
  let ?st1 = "st\<lparr>uAcc := applyRoute l (uAcc st), writes := writes st @ ws0\<rparr>"
  from f have r: "routeTableRow pdu l st = Inr ?st1" by (simp add: routeTableRow_def)
  from Cons.prems(1,2) have flags: "\<not> isClientList ?st1" "isRouteTable ?st1" by simp_all
  from Cons.IH [OF flags rows] obtain ws where
    ih: "mgmtLoop pdu atoi (rrows @ rest) ?st1 = mgmtLoop pdu atoi rest
           (?st1\<lparr>uAcc := foldl (\<lambda>cs l. applyRoute l cs) (uAcc ?st1) rrows, writes := ws\<rparr>)"
    by blast
  have "mgmtLoop pdu atoi ((l # rrows) @ rest) st = mgmtLoop pdu atoi (rrows @ rest) ?st1"
    using nf r Cons.prems(1,2) by simp
  also note ih
  also have "?st1\<lparr>uAcc := foldl (\<lambda>cs l. applyRoute l cs) (uAcc ?st1) rrows, writes := ws\<rparr>
      = st\<lparr>uAcc := foldl (\<lambda>cs l. applyRoute l cs) (uAcc st) (l # rrows), writes := ws\<rparr>"
    by simp
  finally show ?case by blast
qed

lemma mgmtLoop_report:
  assumes "\<forall>l\<in>set pre. \<not> fixedLine l" "\<forall>l\<in>set crows. clientRow l" "\<forall>l\<in>set rrows. routingRow l"
  shows "\<exists>st. mgmtLoop pdu atoi
            (pre @ [clientListHeader] @ crows @ [routingTableLine, routeTableHeader] @ rrows
               @ [globalStatsLine] @ post)
            \<lparr>uAcc = [], isClientList = False, isRouteTable = False, writes = []\<rparr> = Inr st
          \<and> uAcc st = foldl (\<lambda>cs l. applyRoute l cs) (map sessionOf crows) rrows"
proof -
  let ?s0 = "\<lparr>uAcc = [], isClientList = False, isRouteTable = False, writes = []\<rparr>"
  let ?s1 = "?s0\<lparr>isClientList := True\<rparr>"
  have a: "mgmtLoop pdu atoi
            (pre @ [clientListHeader] @ crows @ [routingTableLine, routeTableHeader] @ rrows
               @ [globalStatsLine] @ post) ?s0
        = mgmtLoop pdu atoi (crows @ [routingTableLine, routeTableHeader] @ rrows
               @ [globalStatsLine] @ post) ?s1"
    using mgmtLoop_preamble [OF _ _ assms(1), of ?s0] by simp
  have f1: "isClientList ?s1" "\<not> isRouteTable ?s1" by simp_all
  from mgmtLoop_client_rows [OF f1 assms(2)] obtain ws1 where
    b: "mgmtLoop pdu atoi (crows @ [routingTableLine, routeTableHeader] @ rrows
               @ [globalStatsLine] @ post) ?s1
        = mgmtLoop pdu atoi ([routingTableLine, routeTableHeader] @ rrows @ [globalStatsLine] @ post)
            (?s1\<lparr>uAcc := uAcc ?s1 @ map sessionOf crows, writes := ws1\<rparr>)"
    by blast
  let ?s2 = "?s1\<lparr>uAcc := uAcc ?s1 @ map sessionOf crows, writes := ws1\<rparr>"
  let ?s3 = "?s2\<lparr>isClientList := False, isRouteTable := True\<rparr>"
  have c: "mgmtLoop pdu atoi ([routingTableLine, routeTableHeader] @ rrows @ [globalStatsLine] @ post) ?s2
        = mgmtLoop pdu atoi (rrows @ [globalStatsLine] @ post) ?s3"
    using fixed_lines_distinct by simp
  have f3: "\<not> isClientList ?s3" "isRouteTable ?s3" by simp_all
  from mgmtLoop_routing_rows [OF f3 assms(3)] obtain ws2 where
    d: "mgmtLoop pdu atoi (rrows @ [globalStatsLine] @ post) ?s3
        = mgmtLoop pdu atoi ([globalStatsLine] @ post)
            (?s3\<lparr>uAcc := foldl (\<lambda>cs l. applyRoute l cs) (uAcc ?s3) rrows, writes := ws2\<rparr>)"
    by blast
  let ?s4 = "?s3\<lparr>uAcc := foldl (\<lambda>cs l. applyRoute l cs) (uAcc ?s3) rrows, writes := ws2\<rparr>"
  have e: "mgmtLoop pdu atoi ([globalStatsLine] @ post) ?s4 = Inr ?s4"
    using fixed_lines_distinct by simp
  have u: "uAcc ?s4 = foldl (\<lambda>cs l. applyRoute l cs) (map sessionOf crows) rrows" by simp
  note a
  also note b
  also note c
  also note d
  also note e
  finally have "mgmtLoop pdu atoi
            (pre @ [clientListHeader] @ crows @ [routingTableLine, routeTableHeader] @ rrows
               @ [globalStatsLine] @ post) ?s0 = Inr ?s4" .
  with u show ?thesis by blast
qed


lemma length_applyRoute: "length (applyRoute l cs) = length cs"
  by (induction cs) simp_all

lemma applyRoute_nth:
  "i < length cs \<Longrightarrow>
   applyRoute l cs ! i =
     (if CommonName (cs ! i) = csvField 1 l \<and> (\<forall>j<i. CommonName (cs ! j) \<noteq> csvField 1 l)
      then (cs ! i)\<lparr>VirtualAddress := csvField 0 l, LastRef := csvField 3 l\<rparr>
      else cs ! i)"
proof (induction cs arbitrary: i)
  case Nil
  then show ?case by simp
next
  case (Cons c cs)
  show ?case
  proof (cases i)
    case 0
    then show ?thesis by simp
  next
    case (Suc k)
    with Cons.prems have k: "k < length cs" by simp
    show ?thesis
    proof (cases "CommonName c = csvField 1 l")
      case True
      then have "\<not> (\<forall>j<Suc k. CommonName ((c # cs) ! j) \<noteq> csvField 1 l)"
        by auto
      then have "(if CommonName ((c # cs) ! Suc k) = csvField 1 l
                    \<and> (\<forall>j<Suc k. CommonName ((c # cs) ! j) \<noteq> csvField 1 l)
                  then ((c # cs) ! Suc k)\<lparr>VirtualAddress := csvField 0 l, LastRef := csvField 3 l\<rparr>
                  else (c # cs) ! Suc k) = cs ! k"
        by (simp only: if_False simp_thms nth_Cons_Suc)
      moreover from True have "applyRoute l (c # cs) ! Suc k = cs ! k" by simp
      ultimately show ?thesis unfolding Suc by (simp only:)
    next
      case False
      have "(\<forall>j<Suc k. CommonName ((c # cs) ! j) \<noteq> csvField 1 l)
            \<longleftrightarrow> (\<forall>j<k. CommonName (cs ! j) \<noteq> csvField 1 l)"
        using False by (auto simp: less_Suc_eq_0_disj)
      with False Suc Cons.IH [OF k] show ?thesis by auto
    qed
  qed
qed

lemma applyRoute_names:
  "i < length cs \<Longrightarrow> CommonName (applyRoute l cs ! i) = CommonName (cs ! i)"
  by (simp add: applyRoute_nth)

lemma correlated_step:
  assumes "correlated rows cs"
  shows "correlated (rows @ [l]) (applyRoute l cs)"
  unfolding correlated_def
proof (intro allI impI)
  fix i
  assume "i < length (applyRoute l cs)"
  then have i: "i < length cs" by (simp add: length_applyRoute)
  have names: "\<And>j. j \<le> i \<Longrightarrow> CommonName (applyRoute l cs ! j) = CommonName (cs ! j)"
    using i by (simp add: applyRoute_names)
  have first: "(\<forall>j<i. CommonName (applyRoute l cs ! j) \<noteq> CommonName (applyRoute l cs ! i))
               \<longleftrightarrow> (\<forall>j<i. CommonName (cs ! j) \<noteq> CommonName (cs ! i))"
    using names by simp
  from assms i have old:
    "if (\<forall>j<i. CommonName (cs ! j) \<noteq> CommonName (cs ! i))
           \<and> (\<exists>r\<in>set rows. csvField 1 r = CommonName (cs ! i))
     then (\<exists>r\<in>set rows. csvField 1 r = CommonName (cs ! i)
                \<and> VirtualAddress (cs ! i) = csvField 0 r \<and> LastRef (cs ! i) = csvField 3 r)
     else VirtualAddress (cs ! i) = [] \<and> LastRef (cs ! i) = []"
    unfolding correlated_def by blast
  let ?P = "if (\<forall>j<i. CommonName (applyRoute l cs ! j) \<noteq> CommonName (applyRoute l cs ! i))
           \<and> (\<exists>r\<in>set (rows @ [l]). csvField 1 r = CommonName (applyRoute l cs ! i))
        then (\<exists>r\<in>set (rows @ [l]). csvField 1 r = CommonName (applyRoute l cs ! i)
                \<and> VirtualAddress (applyRoute l cs ! i) = csvField 0 r
                \<and> LastRef (applyRoute l cs ! i) = csvField 3 r)
        else VirtualAddress (applyRoute l cs ! i) = [] \<and> LastRef (applyRoute l cs ! i) = []"
  show ?P
  proof (cases "CommonName (cs ! i) = csvField 1 l")
    case True
    show ?thesis
    proof (cases "\<forall>j<i. CommonName (cs ! j) \<noteq> CommonName (cs ! i)")
      case isFirst: True
      with True have "applyRoute l cs ! i
          = (cs ! i)\<lparr>VirtualAddress := csvField 0 l, LastRef := csvField 3 l\<rparr>"
        using i by (simp add: applyRoute_nth)
      with True isFirst first names show ?thesis by auto
    next
      case notFirst: False
      with True have same: "applyRoute l cs ! i = cs ! i"
        using i by (auto simp: applyRoute_nth)
      from notFirst old have "VirtualAddress (cs ! i) = [] \<and> LastRef (cs ! i) = []" by simp
      with notFirst first same show ?thesis by auto
    qed
  next
    case False
    then have same: "applyRoute l cs ! i = cs ! i" using i by (simp add: applyRoute_nth)
    from False have ex: "(\<exists>r\<in>set (rows @ [l]). csvField 1 r = CommonName (cs ! i))
        \<longleftrightarrow> (\<exists>r\<in>set rows. csvField 1 r = CommonName (cs ! i))" by auto
    show ?thesis
    proof (cases "(\<forall>j<i. CommonName (cs ! j) \<noteq> CommonName (cs ! i))
           \<and> (\<exists>r\<in>set rows. csvField 1 r = CommonName (cs ! i))")
      case True
      with old obtain r where "r \<in> set rows" "csvField 1 r = CommonName (cs ! i)"
        "VirtualAddress (cs ! i) = csvField 0 r" "LastRef (cs ! i) = csvField 3 r" by auto
      then have "\<exists>r\<in>set (rows @ [l]). csvField 1 r = CommonName (cs ! i)
                \<and> VirtualAddress (cs ! i) = csvField 0 r \<and> LastRef (cs ! i) = csvField 3 r"
        by auto
      with True first same ex show ?thesis by auto
    next
      case False
      with old have "VirtualAddress (cs ! i) = [] \<and> LastRef (cs ! i) = []" by simp
      with False first same ex show ?thesis by auto
    qed
  qed
qed

lemma correlated_foldl:
  "correlated [] cs \<Longrightarrow> correlated rrows (foldl (\<lambda>cs l. applyRoute l cs) cs rrows)"
proof (induction rrows rule: rev_induct)
  case Nil
  then show ?case by simp
next
  case (snoc l rrows)
  then show ?case by (simp add: correlated_step)
qed

lemma correlated_sessions: "correlated [] (map sessionOf crows)"
  by (simp add: correlated_def sessionOf_def)

lemma applyRoute_fields:
  "map CommonName (applyRoute l cs) = map CommonName cs"
  "map RealAddress (applyRoute l cs) = map RealAddress cs"
  "map BytesReceived (applyRoute l cs) = map BytesReceived cs"
  "map BytesSent (applyRoute l cs) = map BytesSent cs"
  "map ConnectedSince (applyRoute l cs) = map ConnectedSince cs"
  by (induction cs) simp_all

lemma foldl_applyRoute_fields:
  "map CommonName (foldl (\<lambda>cs l. applyRoute l cs) cs rrows) = map CommonName cs"
  "map RealAddress (foldl (\<lambda>cs l. applyRoute l cs) cs rrows) = map RealAddress cs"
  "map BytesReceived (foldl (\<lambda>cs l. applyRoute l cs) cs rrows) = map BytesReceived cs"
  "map BytesSent (foldl (\<lambda>cs l. applyRoute l cs) cs rrows) = map BytesSent cs"
  "map ConnectedSince (foldl (\<lambda>cs l. applyRoute l cs) cs rrows) = map ConnectedSince cs"
  by (induction rrows arbitrary: cs) (simp_all add: applyRoute_fields)

text \<open>
  Claim C4. For a status report whose lines are a preamble, the client-list header, \<open>N\<close>
  client-list rows, \<open>ROUTING TABLE\<close>, the routing header, \<open>M\<close> routing rows, \<open>GLOBAL STATS\<close>
  and anything after it, \<open>mgmtConnectedUsersParser\<close> returns \<open>N\<close> sessions, the fields of
  the rows in order. The virtual address and the last reference of a session are those
  of a routing row of its common name when such a row exists and the session is the first
  of that common name; they are empty otherwise. What follows \<open>GLOBAL STATS\<close> has no
  effect, whatever it is.
\<close>

theorem mgmtConnectedUsersParser_report:
  assumes "scanLines text =
             pre @ [clientListHeader] @ crows @ [routingTableLine, routeTableHeader] @ rrows
               @ [globalStatsLine] @ post"
    and "\<forall>l\<in>set pre. \<not> fixedLine l"
    and "\<forall>l\<in>set crows. clientRow l"
    and "\<forall>l\<in>set rrows. routingRow l"
  shows "\<exists>us ws. mgmtConnectedUsersParser pdu atoi text = Inr (us, ws)
     \<and> length us = length crows
     \<and> map CommonName us = map (csvField 0) crows
     \<and> map RealAddress us = map (csvField 1) crows
     \<and> map BytesReceived us = map (csvField 2) crows
     \<and> map BytesSent us = map (csvField 3) crows
     \<and> map ConnectedSince us = map (csvField 4) crows
     \<and> correlated rrows us"
proof -
  from mgmtLoop_report [OF assms(2,3,4), of pdu atoi post] obtain st where
    st: "mgmtLoop pdu atoi
            (pre @ [clientListHeader] @ crows @ [routingTableLine, routeTableHeader] @ rrows
               @ [globalStatsLine] @ post)
            \<lparr>uAcc = [], isClientList = False, isRouteTable = False, writes = []\<rparr> = Inr st"
    and u: "uAcc st = foldl (\<lambda>cs l. applyRoute l cs) (map sessionOf crows) rrows"
    by blast
  have p: "mgmtConnectedUsersParser pdu atoi text = Inr (uAcc st, writes st)"
    by (simp only: mgmtConnectedUsersParser_def assms(1) st sum.case)
  have m: "map CommonName (uAcc st) = map (csvField 0) crows"
    "map RealAddress (uAcc st) = map (csvField 1) crows"
    "map BytesReceived (uAcc st) = map (csvField 2) crows"
    "map BytesSent (uAcc st) = map (csvField 3) crows"
    "map ConnectedSince (uAcc st) = map (csvField 4) crows"
    by (simp_all add: u foldl_applyRoute_fields sessionOf_def)
  have len: "length (uAcc st) = length crows"
    using m(1) by (metis length_map)
  have c: "correlated rrows (uAcc st)"
    unfolding u by (rule correlated_foldl [OF correlated_sessions])
  from p m len c show ?thesis by blast
qed

lemma correlated_at:
  "correlated rrows us \<Longrightarrow> i < length us \<Longrightarrow>
     (if (\<forall>j<i. CommonName (us ! j) \<noteq> CommonName (us ! i))
           \<and> (\<exists>r\<in>set rrows. csvField 1 r = CommonName (us ! i))
      then (\<exists>r\<in>set rrows. csvField 1 r = CommonName (us ! i)
                \<and> VirtualAddress (us ! i) = csvField 0 r \<and> LastRef (us ! i) = csvField 3 r)
      else VirtualAddress (us ! i) = [] \<and> LastRef (us ! i) = [])"
  unfolding correlated_def by blast

theorem mgmtConnectedUsersParser_report_witness:
  "\<exists>us ws. mgmtConnectedUsersParser (\<lambda>layout d. 0) (\<lambda>s. 0) sampleReport = Inr (us, ws)
     \<and> map CommonName us = [''alice'', ''alice'']
     \<and> map RealAddress us = [''10.0.0.5'', ''10.0.0.6'']
     \<and> map VirtualAddress us = [''172.16.100.10'', []]"
proof -
  let ?c1 = "''alice,10.0.0.5,100,200,Mon Jan 2 15:04:05 2024''"
  let ?c2 = "''alice,10.0.0.6,1,2,Mon Jan 2 15:04:09 2024''"
  let ?r1 = "''172.16.100.10,alice,10.0.0.5,Mon Jan 2 15:05:00 2024''"
  have lines: "scanLines sampleReport =
      [''OpenVPN CLIENT LIST''] @ [clientListHeader] @ [?c1, ?c2]
        @ [routingTableLine, routeTableHeader] @ [?r1] @ [globalStatsLine] @ [''END'']"
    by (simp add: sampleReport_def scanLines_def nl_def maxScanTokenSize_def dropCR_def
        clientListHeader_def routingTableLine_def routeTableHeader_def globalStatsLine_def)
  have pre: "\<forall>l\<in>set [''OpenVPN CLIENT LIST'']. \<not> fixedLine l"
    by (simp add: fixedLine_def clientListHeader_def routingTableLine_def routeTableHeader_def
        globalStatsLine_def)
  have crows: "\<forall>l\<in>set [?c1, ?c2]. clientRow l"
    by (simp add: clientRow_def fixedLine_def clientListHeader_def routingTableLine_def
        routeTableHeader_def globalStatsLine_def split_on_def)
  have rrows: "\<forall>l\<in>set [?r1]. routingRow l"
    by (simp add: routingRow_def fixedLine_def clientListHeader_def routingTableLine_def
        routeTableHeader_def globalStatsLine_def split_on_def)
  from mgmtConnectedUsersParser_report [OF lines pre crows rrows, of "\<lambda>layout d. 0" "\<lambda>s. 0"]
  obtain us ws where
    p: "mgmtConnectedUsersParser (\<lambda>layout d. 0) (\<lambda>s. 0) sampleReport = Inr (us, ws)"
    and len: "length us = length [?c1, ?c2]"
    and cn: "map CommonName us = map (csvField 0) [?c1, ?c2]"
    and ra: "map RealAddress us = map (csvField 1) [?c1, ?c2]"
    and co: "correlated [?r1] us"
    by blast
  from cn have cn': "map CommonName us = [''alice'', ''alice'']"
    by (simp add: csvField_def split_on_def)
  from ra have ra': "map RealAddress us = [''10.0.0.5'', ''10.0.0.6'']"
    by (simp add: csvField_def split_on_def)
  from len obtain a b where us: "us = [a, b]"
    by (cases us; cases "tl us") auto
  with cn' have names: "CommonName a = ''alice''" "CommonName b = ''alice''" by simp_all
  have f: "csvField 1 ?r1 = ''alice''" "csvField 0 ?r1 = ''172.16.100.10''"
    by (simp_all add: csvField_def split_on_def)
  have "VirtualAddress (us ! 0) = ''172.16.100.10''"
    using correlated_at [OF co, of 0] us names f by auto
  moreover have "VirtualAddress (us ! 1) = []"
  proof -
    have l1: "1 < length us" using us by simp
    have nf: "\<not> (\<forall>j<1. CommonName (us ! j) \<noteq> CommonName (us ! 1))"
      using us names by auto
    from correlated_at [OF co l1] nf show ?thesis
      by (simp only: simp_thms if_False)
  qed
  ultimately have "map VirtualAddress us = [''172.16.100.10'', []]" using us by simp
  with p cn' ra' show ?thesis by (intro exI [of _ us] exI [of _ ws] conjI)
qed

end
